theory Spec2Isabelle
  imports Complex_Main "HOL-Library.Char_ord" "HOL-Library.List_Lexorder"
begin

section \<open>Data model of calculator.py\<close>

text \<open>
  Python floats are modelled by exact rationals, Python ints by \<open>int\<close>, a \<open>Dict[str, int]\<close>
  by an association list in insertion order (keys distinct, as in a dict), and the recipe
  catalog \<open>self.recipes\<close> by the list of its values in insertion order.
  Exceptions are values: \<open>ZeroDivisionError\<close> for a division by zero, \<open>RecursionError\<close>
  for a call that needs more stack frames than are available.
\<close>

datatype error = RecursionError | ZeroDivisionError

record Recipe =
  recipe_id :: string
  display_name :: string
  inputs :: "(string \<times> int) list"
  outputs :: "(string \<times> int) list"
  production_time :: rat
  building_type :: string
  required_research :: string
  energy_consumption :: int
  mana_consumption :: rat
  phase :: int
  alternate_recipe :: bool

datatype ProductionNode = ProductionNode
  (resource: string)
  (quantity_per_minute: rat)
  (recipe: "Recipe option")
  (node_building_type: string)
  (building_count: rat)
  (depth: int)
  (children: "ProductionNode list")

definition BASE_RESOURCES :: "string set" where
  "BASE_RESOURCES = {''ORE'', ''MAGIC_ESSENCE'', ''SUNDROP'', ''GOLD_ORE'', ''ARCANE_CRYSTAL'',
     ''COAL'', ''CINDER'', ''WATER'', ''OIL'', ''LIMESTONE'', ''COPPER_ORE'', ''TIN_ORE'', ''SLAG'',
     ''SILVER_ORE'', ''CRYSTAL_ORE'', ''ADAMANTINE_ORE'', ''VOIDSTONE_ORE''}"

text \<open>\<open>d.get(k, default)\<close> on a dict.\<close>

definition dict_get :: "(string \<times> 'a) list \<Rightarrow> string \<Rightarrow> 'a \<Rightarrow> 'a" where
  "dict_get d k dflt = (case map_of d k of None \<Rightarrow> dflt | Some v \<Rightarrow> v)"

text \<open>
  \<open>_index_recipes\<close> followed by \<open>self.recipes_by_output.get(resource, [])\<close>: the recipes
  whose outputs have the key, in catalog order (each recipe once, the keys of a dict
  being distinct).
\<close>

definition recipes_by_output :: "Recipe list \<Rightarrow> string \<Rightarrow> Recipe list" where
  "recipes_by_output recipes resource_name =
     filter (\<lambda>r. resource_name \<in> set (map fst (outputs r))) recipes"

section \<open>Recipe selection and raw cost estimation\<close>

text \<open>Lines 308 to 312 of \<open>get_best_recipe\<close>: the phase filter and the alternate policy.\<close>

definition candidates ::
  "Recipe list \<Rightarrow> string \<Rightarrow> int \<Rightarrow> bool \<Rightarrow> string list option \<Rightarrow> Recipe list" where
  "candidates recipes resource_name max_phase allow_alternate allowed_alternates =
     (let cs = filter (\<lambda>r. phase r \<le> max_phase) (recipes_by_output recipes resource_name) in
      if \<not> allow_alternate then filter (\<lambda>r. \<not> alternate_recipe r) cs
      else (case allowed_alternates of
              None \<Rightarrow> cs
            | Some al \<Rightarrow> filter (\<lambda>r. \<not> alternate_recipe r \<or> recipe_id r \<in> set al) cs))"

text \<open>
  The inner loop of lines 318 to 323: the keys of \<open>recipe.inputs\<close> in order, with the
  \<open>break\<close> at the first non-base input whose estimated cost is at least 9999.0.
  \<open>cost\<close> is the call of \<open>_get_raw_cost_recursive\<close> made there.
\<close>

fun all_inputs_producible :: "(string \<Rightarrow> error + rat) \<Rightarrow> string list \<Rightarrow> error + bool" where
  "all_inputs_producible cost [] = Inr True"
| "all_inputs_producible cost (input_resource # rest) =
     (if input_resource \<notin> BASE_RESOURCES then
        (case cost input_resource of
           Inl e \<Rightarrow> Inl e
         | Inr input_cost \<Rightarrow>
             if input_cost \<ge> 9999 then Inr False else all_inputs_producible cost rest)
      else all_inputs_producible cost rest)"

text \<open>The outer loop of lines 315 to 325.\<close>

fun valid_candidates :: "(string \<Rightarrow> error + rat) \<Rightarrow> Recipe list \<Rightarrow> error + Recipe list" where
  "valid_candidates cost [] = Inr []"
| "valid_candidates cost (r # rest) =
     (case all_inputs_producible cost (map fst (inputs r)) of
        Inl e \<Rightarrow> Inl e
      | Inr ok \<Rightarrow>
          (case valid_candidates cost rest of
             Inl e \<Rightarrow> Inl e
           | Inr vs \<Rightarrow> Inr (if ok then r # vs else vs)))"

text \<open>
  Lines 333 to 340: the raw cost of one candidate, accumulated over \<open>recipe.inputs.items()\<close>.
  \<open>input_amount / output_amount\<close> divides two ints and raises on a zero divisor.
\<close>

fun sum_candidate_cost ::
  "(string \<Rightarrow> error + rat) \<Rightarrow> int \<Rightarrow> (string \<times> int) list \<Rightarrow> rat \<Rightarrow> error + rat" where
  "sum_candidate_cost cost output_amount [] raw_cost = Inr raw_cost"
| "sum_candidate_cost cost output_amount ((input_resource, input_amount) # rest) raw_cost =
     (if output_amount = 0 then Inl ZeroDivisionError
      else
        let input_per_output = of_int input_amount / of_int output_amount in
        if input_resource \<in> BASE_RESOURCES then
          sum_candidate_cost cost output_amount rest (raw_cost + input_per_output)
        else
          (case cost input_resource of
             Inl e \<Rightarrow> Inl e
           | Inr input_cost \<Rightarrow>
               sum_candidate_cost cost output_amount rest
                 (raw_cost + input_per_output * input_cost)))"

definition candidate_raw_cost ::
  "(string \<Rightarrow> error + rat) \<Rightarrow> string \<Rightarrow> Recipe \<Rightarrow> error + rat" where
  "candidate_raw_cost cost resource_name r =
     sum_candidate_cost cost (dict_get (outputs r) resource_name 1) (inputs r) 0"

text \<open>
  Lines 329 to 344: the ranking loop. \<open>best_raw_cost\<close> starts at \<open>float('inf')\<close>,
  which is \<open>None\<close> here; every rational cost is below it.
\<close>

fun select_best ::
  "(string \<Rightarrow> error + rat) \<Rightarrow> string \<Rightarrow> Recipe list \<Rightarrow> Recipe \<Rightarrow> rat option \<Rightarrow> error + Recipe" where
  "select_best cost resource_name [] best_recipe best_raw_cost = Inr best_recipe"
| "select_best cost resource_name (r # rest) best_recipe best_raw_cost =
     (case candidate_raw_cost cost resource_name r of
        Inl e \<Rightarrow> Inl e
      | Inr raw_cost \<Rightarrow>
          if (case best_raw_cost of None \<Rightarrow> True | Some b \<Rightarrow> raw_cost < b)
          then select_best cost resource_name rest r (Some raw_cost)
          else select_best cost resource_name rest best_recipe best_raw_cost)"

text \<open>
  Lines 359 to 367 of \<open>_get_raw_cost_recursive\<close>: the sum over the inputs other than the
  placeholder \<open>NONE\<close>, with the count \<open>valid_inputs\<close>.
\<close>

fun sum_input_costs ::
  "(string \<Rightarrow> error + rat) \<Rightarrow> int \<Rightarrow> (string \<times> int) list \<Rightarrow> rat \<Rightarrow> nat \<Rightarrow> error + rat \<times> nat" where
  "sum_input_costs cost output_amount [] total_cost valid_inputs = Inr (total_cost, valid_inputs)"
| "sum_input_costs cost output_amount ((input_resource, input_amount) # rest) total_cost valid_inputs =
     (if input_resource = ''NONE'' then
        sum_input_costs cost output_amount rest total_cost valid_inputs
      else if output_amount = 0 then Inl ZeroDivisionError
      else
        let input_per_output = of_int input_amount / of_int output_amount in
        (case cost input_resource of
           Inl e \<Rightarrow> Inl e
         | Inr input_cost \<Rightarrow>
             sum_input_costs cost output_amount rest
               (total_cost + input_per_output * input_cost) (valid_inputs + 1)))"

text \<open>
  \<open>get_best_recipe\<close> and \<open>_get_raw_cost_recursive\<close> call each other. The second argument
  is the number of stack frames still available: a call with none left raises
  \<open>RecursionError\<close>, and each call leaves one frame fewer to the calls it makes.
  \<open>visited\<close> is passed by value: every call of \<open>_get_raw_cost_recursive\<close> receives a fresh
  set (\<open>set()\<close> or \<open>visited.copy()\<close>), so its \<open>add\<close> and \<open>remove\<close> are seen by no caller.
\<close>

fun get_best_recipe ::
  "Recipe list \<Rightarrow> nat \<Rightarrow> string \<Rightarrow> int \<Rightarrow> bool \<Rightarrow> bool \<Rightarrow> string list option \<Rightarrow> error + Recipe option"
and get_raw_cost_recursive ::
  "Recipe list \<Rightarrow> nat \<Rightarrow> string \<Rightarrow> int \<Rightarrow> bool \<Rightarrow> string set \<Rightarrow> string list option \<Rightarrow> error + rat"
where
  "get_best_recipe recipes 0 resource_name max_phase prefer_efficient allow_alternate allowed_alternates =
     Inl RecursionError"
| "get_best_recipe recipes (Suc n) resource_name max_phase prefer_efficient allow_alternate allowed_alternates =
     (let cands = candidates recipes resource_name max_phase allow_alternate allowed_alternates in
      if cands = [] then Inr None
      else
        (case valid_candidates
                (\<lambda>input_resource. get_raw_cost_recursive recipes n input_resource max_phase
                    allow_alternate {} None) cands of
           Inl e \<Rightarrow> Inl e
         | Inr valid \<Rightarrow>
             if valid = [] then Inr None
             else if prefer_efficient \<and> length valid > 1 then
               (case select_best
                       (\<lambda>input_resource. get_raw_cost_recursive recipes n input_resource max_phase
                           allow_alternate {} allowed_alternates)
                       resource_name valid (hd valid) None of
                  Inl e \<Rightarrow> Inl e
                | Inr best_recipe \<Rightarrow> Inr (Some best_recipe))
             else Inr (Some (hd valid))))"
| "get_raw_cost_recursive recipes 0 resource_name max_phase allow_alternate visited allowed_alternates =
     Inl RecursionError"
| "get_raw_cost_recursive recipes (Suc n) resource_name max_phase allow_alternate visited allowed_alternates =
     (if resource_name \<in> BASE_RESOURCES then Inr 1
      else if resource_name \<in> visited then Inr 999999
      else
        (case get_best_recipe recipes n resource_name max_phase False allow_alternate
                allowed_alternates of
           Inl e \<Rightarrow> Inl e
         | Inr None \<Rightarrow> Inr 999999
         | Inr (Some r) \<Rightarrow>
             (case sum_input_costs
                     (\<lambda>input_resource. get_raw_cost_recursive recipes n input_resource max_phase
                         allow_alternate (insert resource_name visited) allowed_alternates)
                     (dict_get (outputs r) resource_name 1) (inputs r) 0 0 of
                Inl e \<Rightarrow> Inl e
              | Inr (total_cost, valid_inputs) \<Rightarrow>
                  if valid_inputs = 0 then Inr 999999 else Inr total_cost)))"

section \<open>Chain construction\<close>

text \<open>
  Lines 422 to 429 of \<open>_build_chain_recursive\<close>: one child per input other than the
  placeholder \<open>NONE\<close>, in the order of \<open>recipe.inputs.items()\<close>. \<open>build\<close> is the
  recursive call, applied to the input and its rate.
\<close>

fun build_children ::
  "(string \<Rightarrow> rat \<Rightarrow> error + ProductionNode) \<Rightarrow> int \<Rightarrow> rat \<Rightarrow> (string \<times> int) list
     \<Rightarrow> error + ProductionNode list" where
  "build_children build output_amount qpm [] = Inr []"
| "build_children build output_amount qpm ((input_resource, input_amount) # rest) =
     (if input_resource = ''NONE'' then build_children build output_amount qpm rest
      else if output_amount = 0 then Inl ZeroDivisionError
      else
        let input_per_minute = (of_int input_amount / of_int output_amount) * qpm in
        (case build input_resource input_per_minute of
           Inl e \<Rightarrow> Inl e
         | Inr child_node \<Rightarrow>
             (case build_children build output_amount qpm rest of
                Inl e \<Rightarrow> Inl e
              | Inr rest_nodes \<Rightarrow> Inr (child_node # rest_nodes))))"

text \<open>
  \<open>_build_chain_recursive\<close>, with the frames still available as second argument.
  \<open>visited\<close> is passed by value: the caller hands over a fresh set or a copy
  (\<open>child_visited = visited.copy()\<close>) and never reads it again.
  Both float divisions raise \<open>ZeroDivisionError\<close> on a zero divisor.
\<close>

fun build_chain_recursive ::
  "Recipe list \<Rightarrow> nat \<Rightarrow> string \<Rightarrow> rat \<Rightarrow> string set \<Rightarrow> int \<Rightarrow> int \<Rightarrow> bool \<Rightarrow> string list option
     \<Rightarrow> error + ProductionNode" where
  "build_chain_recursive recipes 0 resource_name qpm visited dep max_phase allow_alternate
      allowed_alternates = Inl RecursionError"
| "build_chain_recursive recipes (Suc n) resource_name qpm visited dep max_phase allow_alternate
      allowed_alternates =
     (if resource_name \<in> BASE_RESOURCES then
        Inr (ProductionNode resource_name qpm None ''Miner/Extractor'' 0 dep [])
      else if resource_name \<in> visited then
        Inr (ProductionNode resource_name qpm None ''CIRCULAR'' 0 dep [])
      else
        (case get_best_recipe recipes n resource_name max_phase True allow_alternate
                allowed_alternates of
           Inl e \<Rightarrow> Inl e
         | Inr None \<Rightarrow> Inr (ProductionNode resource_name qpm None ''NO RECIPE'' 0 dep [])
         | Inr (Some r) \<Rightarrow>
             let output_amount = dict_get (outputs r) resource_name 1 in
             if production_time r = 0 then Inl ZeroDivisionError
             else
               let cycles_per_minute = 60 / production_time r;
                   items_per_minute_per_building = of_int output_amount * cycles_per_minute
               in
               if items_per_minute_per_building = 0 then Inl ZeroDivisionError
               else
                 let buildings_needed = qpm / items_per_minute_per_building in
                 (case build_children
                         (\<lambda>input_resource input_per_minute.
                             build_chain_recursive recipes n input_resource input_per_minute
                               (insert resource_name visited) (dep + 1) max_phase allow_alternate
                               allowed_alternates)
                         output_amount qpm (inputs r) of
                    Inl e \<Rightarrow> Inl e
                  | Inr child_nodes \<Rightarrow>
                      if child_nodes = [] \<and> resource_name \<notin> BASE_RESOURCES then
                        Inr (ProductionNode resource_name qpm None ''NO RECIPE'' 0 dep [])
                      else
                        Inr (ProductionNode resource_name qpm (Some r) (building_type r)
                               buildings_needed dep child_nodes))))"

definition calculate_production_chain ::
  "Recipe list \<Rightarrow> nat \<Rightarrow> string \<Rightarrow> rat \<Rightarrow> int \<Rightarrow> bool \<Rightarrow> string list option
     \<Rightarrow> error + ProductionNode" where
  "calculate_production_chain recipes n target_resource target_quantity_per_minute max_phase
      allow_alternate allowed_alternates =
     build_chain_recursive recipes n target_resource target_quantity_per_minute {} 0 max_phase
       allow_alternate allowed_alternates"

section \<open>Aggregation\<close>

text \<open>
  \<open>str.title()\<close> on ASCII text: a letter that follows a cased letter is lowered, any other
  letter is raised; every other character is kept and counts as uncased.
\<close>

definition is_lower :: "char \<Rightarrow> bool" where
  "is_lower c = (CHR ''a'' \<le> c \<and> c \<le> CHR ''z'')"

definition is_upper :: "char \<Rightarrow> bool" where
  "is_upper c = (CHR ''A'' \<le> c \<and> c \<le> CHR ''Z'')"

definition to_upper :: "char \<Rightarrow> char" where
  "to_upper c = (if is_lower c then char_of (of_char c - (32::nat)) else c)"

definition to_lower :: "char \<Rightarrow> char" where
  "to_lower c = (if is_upper c then char_of (of_char c + (32::nat)) else c)"

fun title_from :: "bool \<Rightarrow> string \<Rightarrow> string" where
  "title_from previous_is_cased [] = []"
| "title_from previous_is_cased (c # cs) =
     (if is_lower c then
        (if previous_is_cased then c else to_upper c) # title_from True cs
      else if is_upper c then
        (if previous_is_cased then to_lower c else c) # title_from True cs
      else c # title_from False cs)"

definition title :: "string \<Rightarrow> string" where
  "title s = title_from False s"

definition get_display_name :: "(string \<rightharpoonup> string) \<Rightarrow> string \<Rightarrow> string" where
  "get_display_name display_name_map resource_name =
     (case display_name_map resource_name of
        Some d \<Rightarrow> d
      | None \<Rightarrow> title (map (\<lambda>c. if c = CHR ''_'' then CHR '' '' else c) resource_name))"





section \<open>Example catalogs\<close>

text \<open>\<open>Recipe(...)\<close> with the defaults of the dataclass for the fields not given.\<close>

definition mk_recipe ::
  "string \<Rightarrow> (string \<times> int) list \<Rightarrow> (string \<times> int) list \<Rightarrow> rat \<Rightarrow> string \<Rightarrow> bool \<Rightarrow> Recipe" where
  "mk_recipe rid ins outs t btype alt =
     \<lparr>recipe_id = rid, display_name = rid, inputs = ins, outputs = outs, production_time = t,
      building_type = btype, required_research = [], energy_consumption = 5,
      mana_consumption = 0, phase = 1, alternate_recipe = alt\<rparr>"

definition ore_wash :: Recipe where
  "ore_wash = mk_recipe ''ore_wash'' [(''SLAG'', 2)] [(''ORE'', 1)] 5 ''Crusher'' False"

definition plate_basic :: Recipe where
  "plate_basic = mk_recipe ''plate'' [(''ORE'', 3)] [(''PLATE'', 1)] 4 ''Smelter'' False"

definition plate_alt :: Recipe where
  "plate_alt = mk_recipe ''alt_plate'' [(''COAL'', 1)] [(''PLATE'', 2)] 4 ''Smelter'' True"

definition gear :: Recipe where
  "gear = mk_recipe ''gear'' [(''ROD'', 1)] [(''GEAR'', 1)] 5 ''Assembler'' False"

definition rod_alt :: Recipe where
  "rod_alt = mk_recipe ''alt_rod'' [(''ORE'', 1)] [(''ROD'', 1)] 5 ''Smelter'' True"



definition widget :: Recipe where
  "widget = mk_recipe ''widget'' [(''NONE'', 1)] [(''WIDGET'', 1)] 5 ''Assembler'' False"

definition none_source :: Recipe where
  "none_source = mk_recipe ''none_source'' [(''ORE'', 1)] [(''NONE'', 1)] 5 ''Assembler'' False"

definition recipe_a :: Recipe where
  "recipe_a = mk_recipe ''a'' [(''B'', 1)] [(''A'', 1)] 5 ''Assembler'' False"

definition recipe_b :: Recipe where
  "recipe_b = mk_recipe ''b'' [(''A'', 1)] [(''B'', 1)] 5 ''Assembler'' False"





text \<open>The nodes of a tree, in the pre-order of \<open>traverse\<close>.\<close>

fun nodes :: "ProductionNode \<Rightarrow> ProductionNode list" where
  "nodes (ProductionNode res qpm rcp btype bcount dep chs) =
     ProductionNode res qpm rcp btype bcount dep chs # concat (map nodes chs)"




text \<open>What the nodes of a list add to the three totals, as \<open>traverse\<close> tests them.\<close>

definition raw_contributions :: "(string \<rightharpoonup> string) \<Rightarrow> ProductionNode list \<Rightarrow> (string \<times> rat) list" where
  "raw_contributions display_name_map ns =
     map (\<lambda>nd. (get_display_name display_name_map (resource nd), quantity_per_minute nd))
       (filter (\<lambda>nd. recipe nd = None \<and> resource nd \<in> BASE_RESOURCES) ns)"

definition building_contributions :: "ProductionNode list \<Rightarrow> (string \<times> rat) list" where
  "building_contributions ns =
     map (\<lambda>nd. (node_building_type nd, building_count nd)) (filter (\<lambda>nd. recipe nd \<noteq> None) ns)"

definition alternate_names :: "ProductionNode list \<Rightarrow> string list" where
  "alternate_names ns =
     concat (map (\<lambda>nd. case recipe nd of
                          None \<Rightarrow> []
                        | Some r \<Rightarrow> if alternate_recipe r then [display_name r] else []) ns)"




section \<open>Base resources\<close>

text \<open>
  Claim C8. For a resource of \<open>BASE_RESOURCES\<close> and any rate, \<open>calculate_production_chain\<close>
  returns the terminal node with no recipe, the label \<open>Miner/Extractor\<close> and the rate
  unchanged, whatever the catalog holds. One frame suffices, so \<open>get_best_recipe\<close>, which
  would need a second one, is not called.
\<close>

theorem base_resource_terminal:
  "resource_name \<in> BASE_RESOURCES \<Longrightarrow>
   calculate_production_chain recipes (Suc n) resource_name q max_phase allow_alternate
       allowed_alternates
     = Inr (ProductionNode resource_name q None ''Miner/Extractor'' 0 0 [])"
  by (simp add: calculate_production_chain_def)

theorem base_resource_terminal_witness:
  "''ORE'' \<in> BASE_RESOURCES \<and>
   recipes_by_output [ore_wash] ''ORE'' = [ore_wash] \<and>
   calculate_production_chain [ore_wash] (Suc 0) ''ORE'' 7 1 True None
     = Inr (ProductionNode ''ORE'' 7 None ''Miner/Extractor'' 0 0 [])"
proof -
  have h: "''ORE'' \<in> BASE_RESOURCES" by (simp add: BASE_RESOURCES_def)
  have "recipes_by_output [ore_wash] ''ORE'' = [ore_wash]" by code_simp
  with h base_resource_terminal [OF h, of "[ore_wash]" 0 7 1 True None] show ?thesis by simp
qed

section \<open>Alternate recipe policy\<close>

lemma valid_candidates_subset:
  "valid_candidates cost cs = Inr vs \<Longrightarrow> set vs \<subseteq> set cs"
  by (induction cs arbitrary: vs) (auto split: sum.splits if_splits)

lemma select_best_mem:
  "select_best cost res vs b bc = Inr r \<Longrightarrow> r = b \<or> r \<in> set vs"
  by (induction vs arbitrary: b bc) (auto split: sum.splits if_splits)

lemma get_best_recipe_mem:
  assumes "get_best_recipe recipes n res mp pe aa al = Inr (Some r)"
  shows "r \<in> set (candidates recipes res mp aa al)"
proof (cases n)
  case 0
  with assms show ?thesis by simp
next
  case (Suc m)
  let ?cs = "candidates recipes res mp aa al"
  from assms Suc obtain vs where
    vs: "valid_candidates (\<lambda>i. get_raw_cost_recursive recipes m i mp aa {} None) ?cs = Inr vs"
    and ne: "vs \<noteq> []"
    and r: "r = hd vs \<or>
      select_best (\<lambda>i. get_raw_cost_recursive recipes m i mp aa {} al) res vs (hd vs) None = Inr r"
    by (auto simp: Let_def split: if_splits sum.splits)
  from r ne have "r \<in> set vs"
    using select_best_mem by fastforce
  with valid_candidates_subset[OF vs] show ?thesis by blast
qed

text \<open>
  Claim C4, as stated, fails: with \<open>allow_alternate\<close> false an alternate recipe is dropped
  although its identifier is in the allow-list.
\<close>

theorem allow_list_ignored_when_alternates_disallowed:
  "alternate_recipe plate_alt \<and> recipe_id plate_alt \<in> set [''alt_plate''] \<and>
   plate_alt \<in> set (recipes_by_output [plate_basic, plate_alt] ''PLATE'') \<and> phase plate_alt \<le> 1 \<and>
   plate_alt \<notin> set (candidates [plate_basic, plate_alt] ''PLATE'' 1 False (Some [''alt_plate''])) \<and>
   get_best_recipe [plate_alt] 3 ''PLATE'' 1 True False (Some [''alt_plate'']) = Inr None"
  by code_simp

text \<open>
  Claim C4, amended. Among the recipes that output the resource within the phase:
  a recipe that is not an alternate is always a candidate; with \<open>allow_alternate\<close> false
  no alternate is a candidate, with or without an allow-list; with \<open>allow_alternate\<close>
  true and an allow-list, an alternate is excluded iff its identifier is not in the list,
  and without a list no alternate is excluded. The recipe \<open>get_best_recipe\<close> returns is
  one of the candidates.
\<close>

theorem alternate_policy:
  "(r \<in> set (recipes_by_output recipes res) \<and> phase r \<le> mp \<longrightarrow>
     (\<not> alternate_recipe r \<longrightarrow> r \<in> set (candidates recipes res mp aa al)) \<and>
     (alternate_recipe r \<and> \<not> aa \<longrightarrow> r \<notin> set (candidates recipes res mp aa al)) \<and>
     (alternate_recipe r \<and> aa \<longrightarrow>
        (r \<notin> set (candidates recipes res mp aa (Some l)) \<longleftrightarrow> recipe_id r \<notin> set l)) \<and>
     (alternate_recipe r \<and> aa \<longrightarrow> r \<in> set (candidates recipes res mp aa None))) \<and>
   (get_best_recipe recipes n res mp pe aa al = Inr (Some b) \<longrightarrow>
      b \<in> set (candidates recipes res mp aa al))"
  using get_best_recipe_mem
  by (auto simp: candidates_def Let_def split: option.splits)

theorem alternate_policy_witness:
  "plate_alt \<in> set (recipes_by_output [plate_basic, plate_alt] ''PLATE'') \<and> phase plate_alt \<le> 1 \<and>
   alternate_recipe plate_alt \<and> \<not> alternate_recipe plate_basic \<and>
   plate_basic \<in> set (recipes_by_output [plate_basic, plate_alt] ''PLATE'') \<and> phase plate_basic \<le> 1 \<and>
   plate_basic \<in> set (candidates [plate_basic, plate_alt] ''PLATE'' 1 True (Some [])) \<and>
   plate_alt \<notin> set (candidates [plate_basic, plate_alt] ''PLATE'' 1 False None) \<and>
   plate_alt \<notin> set (candidates [plate_basic, plate_alt] ''PLATE'' 1 True (Some [''other''])) \<and>
   plate_alt \<in> set (candidates [plate_basic, plate_alt] ''PLATE'' 1 True (Some [''alt_plate''])) \<and>
   plate_alt \<in> set (candidates [plate_basic, plate_alt] ''PLATE'' 1 True None) \<and>
   get_best_recipe [plate_basic, plate_alt] 3 ''PLATE'' 1 True True None = Inr (Some plate_alt)"
proof -
  have h: "plate_alt \<in> set (recipes_by_output [plate_basic, plate_alt] ''PLATE'')" "phase plate_alt \<le> 1"
     "alternate_recipe plate_alt" "\<not> alternate_recipe plate_basic"
     "plate_basic \<in> set (recipes_by_output [plate_basic, plate_alt] ''PLATE'')" "phase plate_basic \<le> 1"
     "recipe_id plate_alt = ''alt_plate''"
    by code_simp+
  have g: "get_best_recipe [plate_basic, plate_alt] 3 ''PLATE'' 1 True True None = Inr (Some plate_alt)"
    by code_simp
  show ?thesis
    using h g
      alternate_policy [of plate_basic "[plate_basic, plate_alt]" "''PLATE''" 1 True "Some []" "[]" 3 True plate_alt]
      alternate_policy [of plate_alt "[plate_basic, plate_alt]" "''PLATE''" 1 False None "[]" 3 True plate_alt]
      alternate_policy [of plate_alt "[plate_basic, plate_alt]" "''PLATE''" 1 True None "[''other'']" 3 True plate_alt]
      alternate_policy [of plate_alt "[plate_basic, plate_alt]" "''PLATE''" 1 True None "[''alt_plate'']" 3 True plate_alt]
    by simp
qed

section \<open>Reachability of candidates\<close>

text \<open>
  Claim C9. The reachability filter of \<open>get_best_recipe\<close> estimates an input without
  the allow-list, the ranking estimates it with the allow-list. In the catalog below
  \<open>ROD\<close> is produced by an alternate recipe only; with the empty allow-list \<open>ROD\<close> has
  no recipe and its ranking estimate is the sentinel, while its reachability estimate
  is 1, so the recipe for \<open>GEAR\<close> that consumes it is not discarded.
\<close>

theorem reachability_ignores_allow_list:
  "get_best_recipe [gear, rod_alt] 4 ''ROD'' 1 True True (Some []) = Inr None \<and>
   get_raw_cost_recursive [gear, rod_alt] 3 ''ROD'' 1 True {} None = Inr 1 \<and>
   get_raw_cost_recursive [gear, rod_alt] 3 ''ROD'' 1 True {} (Some []) = Inr 999999 \<and>
   get_best_recipe [gear, rod_alt] 4 ''GEAR'' 1 True True (Some []) = Inr (Some gear)"
  by code_simp






section \<open>Recipes without usable inputs\<close>

lemma build_children_placeholders:
  "\<forall>k \<in> set (map fst ins). k = ''NONE'' \<Longrightarrow> build_children build oa q ins = Inr []"
  by (induction ins) auto

text \<open>
  Claim C7. A resource that is not base and not on the path, whose resolved recipe has
  no input other than the placeholder \<open>NONE\<close> (or no input at all), yields the terminal
  node labelled \<open>NO RECIPE\<close> with no recipe and a building count of 0. The production
  time and the output amount are not zero, as the engine assumes of its catalog;
  with a zero the two divisions before the loop raise.
\<close>

theorem no_children_demoted:
  assumes "resource_name \<notin> BASE_RESOURCES" "resource_name \<notin> visited"
    and "get_best_recipe recipes n resource_name mp True aa al = Inr (Some r)"
    and "\<forall>k \<in> set (map fst (inputs r)). k = ''NONE''"
    and "production_time r \<noteq> 0" "dict_get (outputs r) resource_name 1 \<noteq> 0"
  shows "build_chain_recursive recipes (Suc n) resource_name q visited dep mp aa al
           = Inr (ProductionNode resource_name q None ''NO RECIPE'' 0 dep [])"
  using assms build_children_placeholders[OF assms(4)]
  by (simp add: Let_def)

theorem no_children_demoted_witness:
  "''WIDGET'' \<notin> BASE_RESOURCES \<and> ''WIDGET'' \<notin> ({} :: string set) \<and>
   get_best_recipe [widget, none_source] 4 ''WIDGET'' 1 True True None = Inr (Some widget) \<and>
   map fst (inputs widget) = [''NONE''] \<and>
   production_time widget = 5 \<and> dict_get (outputs widget) ''WIDGET'' 1 = 1 \<and>
   build_chain_recursive [widget, none_source] (Suc 4) ''WIDGET'' 12 {} 0 1 True None
     = Inr (ProductionNode ''WIDGET'' 12 None ''NO RECIPE'' 0 0 [])"
proof -
  have a: "''WIDGET'' \<notin> BASE_RESOURCES" by code_simp
  have g: "get_best_recipe [widget, none_source] 4 ''WIDGET'' 1 True True None = Inr (Some widget)"
    by code_simp
  have i: "map fst (inputs widget) = [''NONE'']" by code_simp
  have p: "production_time widget = 5" "dict_get (outputs widget) ''WIDGET'' 1 = 1"
    by code_simp+
  have "build_chain_recursive [widget, none_source] (Suc 4) ''WIDGET'' 12 {} 0 1 True None
     = Inr (ProductionNode ''WIDGET'' 12 None ''NO RECIPE'' 0 0 [])"
    by (rule no_children_demoted [OF a _ g]) (simp_all add: i p)
  with a g i p show ?thesis by simp
qed

section \<open>Cyclic catalogs\<close>

lemma cyclic_candidates:
  "candidates [recipe_a, recipe_b] ''A'' 1 aa al = [recipe_a]"
  "candidates [recipe_a, recipe_b] ''B'' 1 aa al = [recipe_b]"
  by (auto simp: candidates_def Let_def recipes_by_output_def recipe_a_def recipe_b_def mk_recipe_def
      split: option.splits)

lemma cyclic_not_base: "''A'' \<notin> BASE_RESOURCES" "''B'' \<notin> BASE_RESOURCES"
  by (simp_all add: BASE_RESOURCES_def)

lemma cyclic_inputs: "map fst (inputs recipe_a) = [''B'']" "map fst (inputs recipe_b) = [''A'']"
  by (simp_all add: recipe_a_def recipe_b_def mk_recipe_def)

text \<open>
  In the catalog where the recipe for \<open>A\<close> consumes \<open>B\<close> and the recipe for \<open>B\<close>
  consumes \<open>A\<close>, the reachability filter of \<open>get_best_recipe\<close> starts
  \<open>_get_raw_cost_recursive\<close> on a fresh visited set, which calls \<open>get_best_recipe\<close>
  on the input again: no number of frames is enough for either function.
\<close>

lemma cyclic_selection_never_returns:
  "get_best_recipe [recipe_a, recipe_b] n ''A'' 1 pe aa al = Inl RecursionError \<and>
   get_best_recipe [recipe_a, recipe_b] n ''B'' 1 pe aa al = Inl RecursionError \<and>
   get_raw_cost_recursive [recipe_a, recipe_b] n ''A'' 1 aa {} al = Inl RecursionError \<and>
   get_raw_cost_recursive [recipe_a, recipe_b] n ''B'' 1 aa {} al = Inl RecursionError"
proof (induction n arbitrary: pe aa al)
  case 0
  show ?case by simp
next
  case (Suc n)
  have ra: "get_raw_cost_recursive [recipe_a, recipe_b] n ''A'' 1 aa {} None = Inl RecursionError"
    and rb: "get_raw_cost_recursive [recipe_a, recipe_b] n ''B'' 1 aa {} None = Inl RecursionError"
    and ga: "get_best_recipe [recipe_a, recipe_b] n ''A'' 1 False aa al = Inl RecursionError"
    and gb: "get_best_recipe [recipe_a, recipe_b] n ''B'' 1 False aa al = Inl RecursionError"
    using Suc.IH by blast+
  have 1: "get_best_recipe [recipe_a, recipe_b] (Suc n) ''A'' 1 pe aa al = Inl RecursionError"
    by (simp add: cyclic_candidates cyclic_inputs cyclic_not_base rb)
  have 2: "get_best_recipe [recipe_a, recipe_b] (Suc n) ''B'' 1 pe aa al = Inl RecursionError"
    by (simp add: cyclic_candidates cyclic_inputs cyclic_not_base ra)
  have 3: "get_raw_cost_recursive [recipe_a, recipe_b] (Suc n) ''A'' 1 aa {} al = Inl RecursionError"
    by (simp add: cyclic_not_base ga)
  have 4: "get_raw_cost_recursive [recipe_a, recipe_b] (Suc n) ''B'' 1 aa {} al = Inl RecursionError"
    by (simp add: cyclic_not_base gb)
  from 1 2 3 4 show ?case by blast
qed

text \<open>
  Claim C1 fails on the code: on that catalog \<open>calculate_production_chain\<close> raises
  \<open>RecursionError\<close> for \<open>A\<close> and for \<open>B\<close>, however many frames it is given, for every
  rate and alternate policy. No tree is returned, so no \<open>CIRCULAR\<close> node appears.
\<close>

theorem cyclic_catalog_recursion_error:
  "calculate_production_chain [recipe_a, recipe_b] n ''A'' q 1 aa al = Inl RecursionError \<and>
   calculate_production_chain [recipe_a, recipe_b] n ''B'' q 1 aa al = Inl RecursionError"
proof (cases n)
  case 0
  then show ?thesis by (simp add: calculate_production_chain_def)
next
  case (Suc m)
  then show ?thesis
    using cyclic_selection_never_returns [of m True aa al]
    by (simp add: calculate_production_chain_def cyclic_not_base)
qed

section \<open>Efficiency ranking\<close>








section \<open>Nodes of a production tree\<close>

lemma nodes_self: "nd \<in> set (nodes nd)"
  by (cases nd) simp





section \<open>Building counts\<close>







section \<open>Totals of a production tree\<close>






lemma contributions_append [simp]:
  "raw_contributions dnm (xs @ ys) = raw_contributions dnm xs @ raw_contributions dnm ys"
  "building_contributions (xs @ ys) = building_contributions xs @ building_contributions ys"
  "alternate_names (xs @ ys) = alternate_names xs @ alternate_names ys"
  by (simp_all add: raw_contributions_def building_contributions_def alternate_names_def)

lemma contributions_Nil [simp]:
  "raw_contributions dnm [] = []" "building_contributions [] = []" "alternate_names [] = []"
  by (simp_all add: raw_contributions_def building_contributions_def alternate_names_def)








end
